theory Spec2Isabelle
  imports Main "HOL-Library.Word"
begin

section \<open>The editor's state and its collaborators\<close>

text \<open>
  \<^verbatim>\<open>src/App.tsx\<close> is one React component: nine state variables, and handlers that read
  them from the closure of the last render, call the PDF engine (\<^verbatim>\<open>./utils/pdfUtils\<close>)
  and write them back through the setters. The engine and the parameter types of
  \<^verbatim>\<open>./types\<close> are not part of the sources, so the engine is a parameter of every
  handler (a record of functions, a rejected promise being \<open>Inl\<close>) and the four parameter
  types are type variables \<open>'m\<close> (PdfMetadata), \<open>'f\<close> (PageFilter), \<open>'b\<close> (BorderConfig)
  and \<open>'t\<close> (TextConfig).
\<close>

type_synonym bytes = "8 word list"

datatype error = Rejected string

text \<open>A browser \<^verbatim>\<open>File\<close>: its name, and what \<^verbatim>\<open>file.arrayBuffer()\<close> settles to.\<close>

record File =
  name :: string
  arrayBuffer :: "error + bytes"

text \<open>The functions imported from \<^verbatim>\<open>./utils/pdfUtils\<close> that the handlers call.\<close>

record ('m, 'f, 'b, 't) pdfUtils =
  getPdfDetails :: "bytes \<Rightarrow> error + string list"
  movePage :: "bytes \<Rightarrow> int \<Rightarrow> int \<Rightarrow> error + bytes"
  removePage :: "bytes \<Rightarrow> int \<Rightarrow> error + bytes"
  mergePdfs :: "bytes \<Rightarrow> bytes \<Rightarrow> error + bytes"
  getMetadata :: "bytes \<Rightarrow> error + 'm"
  updateMetadata :: "bytes \<Rightarrow> 'm \<Rightarrow> error + bytes"
  applyFiltersToPage :: "bytes \<Rightarrow> int \<Rightarrow> 'f \<Rightarrow> 'b \<Rightarrow> error + bytes"
  addTextToPage :: "bytes \<Rightarrow> int \<Rightarrow> 't \<Rightarrow> error + bytes"

text \<open>One entry of the log of engine invocations, with the arguments passed.\<close>

datatype ('m, 'f, 'b, 't) call =
    Call_getPdfDetails bytes
  | Call_movePage bytes int int
  | Call_removePage bytes int
  | Call_mergePdfs bytes bytes
  | Call_getMetadata bytes
  | Call_updateMetadata bytes 'm
  | Call_applyFiltersToPage bytes int 'f 'b
  | Call_addTextToPage bytes int 't

text \<open>
  The nine \<^verbatim>\<open>useState\<close> variables of \<^verbatim>\<open>App\<close> (lines 23--33), followed by what the
  handlers do to the host: the engine calls made, \<^verbatim>\<open>console.error\<close>, \<^verbatim>\<open>alert\<close>, and the
  files handed over for download (name and content).
\<close>

record ('m, 'f, 'b, 't) state =
  pdfBytes :: "bytes option"
  fileName :: string
  pages :: "string list"
  loading :: bool
  loadingText :: string
  metadataModalOpen :: bool
  editorModalOpen :: bool
  currentMetadata :: "'m option"
  selectedPageIndex :: "int option"
  engineCalls :: "('m, 'f, 'b, 't) call list"
  consoleErrors :: "error list"
  alerts :: "string list"
  downloads :: "(string \<times> bytes) list"

text \<open>The state of the first render: the initial values given to \<^verbatim>\<open>useState\<close>.\<close>

definition initial :: "('m, 'f, 'b, 't) state" where
  "initial = \<lparr> pdfBytes = None, fileName = [], pages = [], loading = False, loadingText = [],
     metadataModalOpen = False, editorModalOpen = False, currentMetadata = None,
     selectedPageIndex = None, engineCalls = [], consoleErrors = [], alerts = [],
     downloads = [] \<rparr>"

section \<open>Statements, synchronous segments and asynchronous tasks\<close>

type_synonym ('m, 'f, 'b, 't) stmt = "('m, 'f, 'b, 't) state \<Rightarrow> ('m, 'f, 'b, 't) state"

definition setPdfBytes :: "bytes option \<Rightarrow> ('m, 'f, 'b, 't) stmt" where
  "setPdfBytes v s = s\<lparr>pdfBytes := v\<rparr>"

definition setFileName :: "string \<Rightarrow> ('m, 'f, 'b, 't) stmt" where
  "setFileName v s = s\<lparr>fileName := v\<rparr>"

definition setPages :: "string list \<Rightarrow> ('m, 'f, 'b, 't) stmt" where
  "setPages v s = s\<lparr>pages := v\<rparr>"

definition setLoading :: "bool \<Rightarrow> ('m, 'f, 'b, 't) stmt" where
  "setLoading v s = s\<lparr>loading := v\<rparr>"

definition setLoadingText :: "string \<Rightarrow> ('m, 'f, 'b, 't) stmt" where
  "setLoadingText v s = s\<lparr>loadingText := v\<rparr>"

definition setMetadataModalOpen :: "bool \<Rightarrow> ('m, 'f, 'b, 't) stmt" where
  "setMetadataModalOpen v s = s\<lparr>metadataModalOpen := v\<rparr>"

definition setEditorModalOpen :: "bool \<Rightarrow> ('m, 'f, 'b, 't) stmt" where
  "setEditorModalOpen v s = s\<lparr>editorModalOpen := v\<rparr>"

definition setCurrentMetadata :: "'m option \<Rightarrow> ('m, 'f, 'b, 't) stmt" where
  "setCurrentMetadata v s = s\<lparr>currentMetadata := v\<rparr>"

definition setSelectedPageIndex :: "int option \<Rightarrow> ('m, 'f, 'b, 't) stmt" where
  "setSelectedPageIndex v s = s\<lparr>selectedPageIndex := v\<rparr>"

definition invoke :: "('m, 'f, 'b, 't) call \<Rightarrow> ('m, 'f, 'b, 't) stmt" where
  "invoke c s = s\<lparr>engineCalls := engineCalls s @ [c]\<rparr>"

definition console_error :: "error \<Rightarrow> ('m, 'f, 'b, 't) stmt" where
  "console_error e s = s\<lparr>consoleErrors := consoleErrors s @ [e]\<rparr>"

definition alert :: "string \<Rightarrow> ('m, 'f, 'b, 't) stmt" where
  "alert msg s = s\<lparr>alerts := alerts s @ [msg]\<rparr>"

definition download :: "string \<Rightarrow> bytes \<Rightarrow> ('m, 'f, 'b, 't) stmt" where
  "download nm content s = s\<lparr>downloads := downloads s @ [(nm, content)]\<rparr>"

text \<open>
  JavaScript runs a handler without interruption up to its next \<^verbatim>\<open>await\<close>, and React
  commits the setter calls made so far before anything else runs. A \<^emph>\<open>segment\<close> is
  such a run of statements; an asynchronous handler is a \<^emph>\<open>task\<close>: the list of its
  segments, the first one running when the handler is called and each later one when the
  promise it awaits has settled. A handler that returns at a guard has no segment.
\<close>

type_synonym ('m, 'f, 'b, 't) task = "('m, 'f, 'b, 't) stmt list"

definition block :: "('m, 'f, 'b, 't) stmt list \<Rightarrow> ('m, 'f, 'b, 't) stmt" where
  "block stmts s = fold (\<lambda>f. f) stmts s"

text \<open>
  Statements followed by a call of an asynchronous function: the callee's first segment
  runs in the caller's current one.
\<close>

definition then_call ::
  "('m, 'f, 'b, 't) stmt \<Rightarrow> ('m, 'f, 'b, 't) task \<Rightarrow> ('m, 'f, 'b, 't) task" where
  "then_call f t = (case t of [] \<Rightarrow> [f] | g # gs \<Rightarrow> block [f, g] # gs)"

text \<open>Running a task alone to its end, and the states committed on the way.\<close>

definition exec :: "('m, 'f, 'b, 't) task \<Rightarrow> ('m, 'f, 'b, 't) stmt" where
  "exec t s = fold (\<lambda>f. f) t s"

fun observable :: "('m, 'f, 'b, 't) task \<Rightarrow> ('m, 'f, 'b, 't) state \<Rightarrow> ('m, 'f, 'b, 't) state list" where
  "observable [] s = []"
| "observable (f # fs) s = f s # observable fs (f s)"

section \<open>The handlers of \<^verbatim>\<open>App\<close>\<close>

text \<open>\<^verbatim>\<open>loadPdf\<close> (lines 36--49). It catches its own errors: its promise never rejects.\<close>

definition loadPdf :: "('m, 'f, 'b, 't) pdfUtils \<Rightarrow> bytes \<Rightarrow> ('m, 'f, 'b, 't) task" where
  "loadPdf eng bs =
     [ block [setLoading True, setLoadingText ''Processing PDF...'', setPdfBytes (Some bs),
              invoke (Call_getPdfDetails bs)],
       (case getPdfDetails eng bs of
          Inr thumbnails \<Rightarrow> block [setPages thumbnails, setLoading False]
        | Inl err \<Rightarrow> block [console_error err, alert ''Error loading PDF'', setLoading False]) ]"

text \<open>\<^verbatim>\<open>handleFileUpload\<close> (lines 51--64).\<close>

definition handleFileUpload :: "('m, 'f, 'b, 't) pdfUtils \<Rightarrow> File \<Rightarrow> ('m, 'f, 'b, 't) task" where
  "handleFileUpload eng file =
     block [setLoading True, setLoadingText ''Loading file...''] #
     (case arrayBuffer file of
        Inl err \<Rightarrow> [block [console_error err, alert ''Failed to load file'', setLoading False]]
      | Inr buffer \<Rightarrow> then_call (setFileName (name file)) (loadPdf eng buffer))"

text \<open>\<^verbatim>\<open>handleMerge\<close> (lines 66--80); \<open>snap\<close> is the render whose closure the handler reads.\<close>

definition handleMerge ::
  "('m, 'f, 'b, 't) pdfUtils \<Rightarrow> File \<Rightarrow> ('m, 'f, 'b, 't) state \<Rightarrow> ('m, 'f, 'b, 't) task" where
  "handleMerge eng file snap =
     (case pdfBytes snap of
        None \<Rightarrow> []
      | Some cur \<Rightarrow>
          block [setLoading True, setLoadingText ''Merging PDFs...''] #
          (case arrayBuffer file of
             Inl err \<Rightarrow> [block [console_error err, alert ''Failed to merge PDF'', setLoading False]]
           | Inr mergeBytes \<Rightarrow>
               invoke (Call_mergePdfs cur mergeBytes) #
               (case mergePdfs eng cur mergeBytes of
                  Inl err \<Rightarrow>
                    [block [console_error err, alert ''Failed to merge PDF'', setLoading False]]
                | Inr newPdfBytes \<Rightarrow> loadPdf eng newPdfBytes)))"

text \<open>
  \<^verbatim>\<open>handleMovePage\<close> (lines 82--96). The indices are the integers the page grid passes;
  the bound of the guard is \<^verbatim>\<open>pages.length\<close>, the number of thumbnails.
\<close>

definition handleMovePage ::
  "('m, 'f, 'b, 't) pdfUtils \<Rightarrow> int \<Rightarrow> int \<Rightarrow> ('m, 'f, 'b, 't) state \<Rightarrow> ('m, 'f, 'b, 't) task" where
  "handleMovePage eng fromIx toIx snap =
     (case pdfBytes snap of
        None \<Rightarrow> []
      | Some cur \<Rightarrow>
          if toIx < 0 \<or> toIx \<ge> int (length (pages snap)) then []
          else
            block [setLoading True, setLoadingText ''Reordering...'',
                   invoke (Call_movePage cur fromIx toIx)] #
            (case movePage eng cur fromIx toIx of
               Inl err \<Rightarrow> [block [console_error err, setLoading False]]
             | Inr newBytes \<Rightarrow> loadPdf eng newBytes @ [setLoading False]))"

text \<open>\<^verbatim>\<open>handleDeletePage\<close> (lines 98--110).\<close>

definition handleDeletePage ::
  "('m, 'f, 'b, 't) pdfUtils \<Rightarrow> int \<Rightarrow> ('m, 'f, 'b, 't) state \<Rightarrow> ('m, 'f, 'b, 't) task" where
  "handleDeletePage eng index snap =
     (case pdfBytes snap of
        None \<Rightarrow> []
      | Some cur \<Rightarrow>
          block [setLoading True, setLoadingText ''Deleting page...'',
                 invoke (Call_removePage cur index)] #
          (case removePage eng cur index of
             Inl err \<Rightarrow> [block [console_error err, setLoading False]]
           | Inr newBytes \<Rightarrow> loadPdf eng newBytes @ [setLoading False]))"

text \<open>\<^verbatim>\<open>handleSave\<close> (lines 112--121): no \<^verbatim>\<open>await\<close>, one segment.\<close>

definition handleSave :: "('m, 'f, 'b, 't) state \<Rightarrow> ('m, 'f, 'b, 't) task" where
  "handleSave snap =
     (case pdfBytes snap of
        None \<Rightarrow> []
      | Some cur \<Rightarrow> [download (''edited_'' @ fileName snap) cur])"

text \<open>
  \<^verbatim>\<open>openMetadata\<close> (lines 123--128). There is no \<^verbatim>\<open>try\<close>: when the engine rejects, the
  handler's own promise rejects and nothing more runs.
\<close>

definition openMetadata ::
  "('m, 'f, 'b, 't) pdfUtils \<Rightarrow> ('m, 'f, 'b, 't) state \<Rightarrow> ('m, 'f, 'b, 't) task" where
  "openMetadata eng snap =
     (case pdfBytes snap of
        None \<Rightarrow> []
      | Some cur \<Rightarrow>
          invoke (Call_getMetadata cur) #
          (case getMetadata eng cur of
             Inl err \<Rightarrow> []
           | Inr meta \<Rightarrow> [block [setCurrentMetadata (Some meta), setMetadataModalOpen True]]))"

text \<open>\<^verbatim>\<open>saveMetadata\<close> (lines 130--143).\<close>

definition saveMetadata ::
  "('m, 'f, 'b, 't) pdfUtils \<Rightarrow> 'm \<Rightarrow> ('m, 'f, 'b, 't) state \<Rightarrow> ('m, 'f, 'b, 't) task" where
  "saveMetadata eng newMeta snap =
     (case pdfBytes snap of
        None \<Rightarrow> []
      | Some cur \<Rightarrow>
          [ block [setMetadataModalOpen False, setLoading True,
                   invoke (Call_updateMetadata cur newMeta)],
            (case updateMetadata eng cur newMeta of
               Inr newBytes \<Rightarrow> block [setPdfBytes (Some newBytes), setLoading False]
             | Inl err \<Rightarrow>
                 block [console_error err, alert ''Failed to save metadata'', setLoading False]) ])"

text \<open>\<^verbatim>\<open>openEditor\<close> (lines 145--148): synchronous.\<close>

definition openEditor :: "int \<Rightarrow> ('m, 'f, 'b, 't) task" where
  "openEditor index = [block [setSelectedPageIndex (Some index), setEditorModalOpen True]]"

text \<open>\<^verbatim>\<open>handleApplyFilters\<close> (lines 150--162).\<close>

definition handleApplyFilters ::
  "('m, 'f, 'b, 't) pdfUtils \<Rightarrow> 'f \<Rightarrow> 'b \<Rightarrow> ('m, 'f, 'b, 't) state \<Rightarrow> ('m, 'f, 'b, 't) task" where
  "handleApplyFilters eng filters border snap =
     (case pdfBytes snap of
        None \<Rightarrow> []
      | Some cur \<Rightarrow>
          (case selectedPageIndex snap of
             None \<Rightarrow> []
           | Some sel \<Rightarrow>
               block [setLoading True, setLoadingText ''Applying edits...'',
                      invoke (Call_applyFiltersToPage cur sel filters border)] #
               (case applyFiltersToPage eng cur sel filters border of
                  Inl err \<Rightarrow>
                    [block [console_error err, alert ''Failed to apply changes'', setLoading False]]
                | Inr newBytes \<Rightarrow> loadPdf eng newBytes)))"

text \<open>\<^verbatim>\<open>handleAddText\<close> (lines 164--176).\<close>

definition handleAddText ::
  "('m, 'f, 'b, 't) pdfUtils \<Rightarrow> 't \<Rightarrow> ('m, 'f, 'b, 't) state \<Rightarrow> ('m, 'f, 'b, 't) task" where
  "handleAddText eng config snap =
     (case pdfBytes snap of
        None \<Rightarrow> []
      | Some cur \<Rightarrow>
          (case selectedPageIndex snap of
             None \<Rightarrow> []
           | Some sel \<Rightarrow>
               block [setLoading True, setLoadingText ''Adding text...'',
                      invoke (Call_addTextToPage cur sel config)] #
               (case addTextToPage eng cur sel config of
                  Inl err \<Rightarrow>
                    [block [console_error err, alert ''Failed to add text'', setLoading False]]
                | Inr newBytes \<Rightarrow> loadPdf eng newBytes)))"

text \<open>
  The wiring of the JSX (lines 186--269): which handler each control of the toolbar, the
  page cards and the two modals calls.
\<close>

datatype ('m, 'f, 'b, 't) event =
    OnUpload File
  | OnMerge File
  | OnSave
  | OnMetadata
  | OnEdit int
  | OnMove int int
  | OnDelete int
  | OnCloseMetadata
  | OnSaveMetadata 'm
  | OnCloseEditor
  | OnApplyFilters 'f 'b
  | OnAddText 't

fun dispatch ::
  "('m, 'f, 'b, 't) pdfUtils \<Rightarrow> ('m, 'f, 'b, 't) event \<Rightarrow> ('m, 'f, 'b, 't) state \<Rightarrow> ('m, 'f, 'b, 't) task" where
  "dispatch eng (OnUpload file) snap = handleFileUpload eng file"
| "dispatch eng (OnMerge file) snap = handleMerge eng file snap"
| "dispatch eng OnSave snap = handleSave snap"
| "dispatch eng OnMetadata snap = openMetadata eng snap"
| "dispatch eng (OnEdit index) snap = openEditor index"
| "dispatch eng (OnMove fromIx toIx) snap = handleMovePage eng fromIx toIx snap"
| "dispatch eng (OnDelete index) snap = handleDeletePage eng index snap"
| "dispatch eng OnCloseMetadata snap = [setMetadataModalOpen False]"
| "dispatch eng (OnSaveMetadata newMeta) snap = saveMetadata eng newMeta snap"
| "dispatch eng OnCloseEditor snap = [setEditorModalOpen False]"
| "dispatch eng (OnApplyFilters filters border) snap = handleApplyFilters eng filters border snap"
| "dispatch eng (OnAddText config) snap = handleAddText eng config snap"

text \<open>An event handled alone, from the render \<open>s\<close>, to the end of its task.\<close>

definition settle ::
  "('m, 'f, 'b, 't) pdfUtils \<Rightarrow> ('m, 'f, 'b, 't) event \<Rightarrow> ('m, 'f, 'b, 't) stmt" where
  "settle eng ev s = exec (dispatch eng ev s) s"

section \<open>Classifying a run\<close>

text \<open>
  The mutating operations: load, merge, reorder, delete, set-metadata, apply-filters and
  add-text. The others read the Document (export, get-metadata) or only touch the view.
\<close>

fun mutating :: "('m, 'f, 'b, 't) event \<Rightarrow> bool" where
  "mutating (OnUpload file) = True"
| "mutating (OnMerge file) = True"
| "mutating (OnMove fromIx toIx) = True"
| "mutating (OnDelete index) = True"
| "mutating (OnSaveMetadata newMeta) = True"
| "mutating (OnApplyFilters filters border) = True"
| "mutating (OnAddText config) = True"
| "mutating OnSave = False"
| "mutating OnMetadata = False"
| "mutating (OnEdit index) = False"
| "mutating OnCloseMetadata = False"
| "mutating OnCloseEditor = False"

text \<open>The operations whose handler starts with the guard \<^verbatim>\<open>if (!pdfBytes) return\<close>.\<close>

fun needs_document :: "('m, 'f, 'b, 't) event \<Rightarrow> bool" where
  "needs_document (OnMerge file) = True"
| "needs_document (OnMove fromIx toIx) = True"
| "needs_document (OnDelete index) = True"
| "needs_document OnMetadata = True"
| "needs_document (OnSaveMetadata newMeta) = True"
| "needs_document (OnApplyFilters filters border) = True"
| "needs_document (OnAddText config) = True"
| "needs_document OnSave = True"
| "needs_document (OnUpload file) = False"
| "needs_document (OnEdit index) = False"
| "needs_document OnCloseMetadata = False"
| "needs_document OnCloseEditor = False"

text \<open>The mutations that install their result through \<^verbatim>\<open>loadPdf\<close>: all but set-metadata.\<close>

fun reloads :: "('m, 'f, 'b, 't) event \<Rightarrow> bool" where
  "reloads (OnSaveMetadata newMeta) = False"
| "reloads ev = mutating ev"

text \<open>The two mutations whose \<^verbatim>\<open>catch\<close> block has no \<^verbatim>\<open>alert\<close>.\<close>

fun quiet_on_failure :: "('m, 'f, 'b, 't) event \<Rightarrow> bool" where
  "quiet_on_failure (OnMove fromIx toIx) = True"
| "quiet_on_failure (OnDelete index) = True"
| "quiet_on_failure ev = False"

text \<open>
  Every \<^verbatim>\<open>catch\<close> block of the mutating handlers starts with \<^verbatim>\<open>console.error(err)\<close>, and
  nothing else writes to the console: an operation has failed when its run has logged an
  error, and has succeeded when it got past its guards and logged none.
\<close>

definition failed ::
  "('m, 'f, 'b, 't) pdfUtils \<Rightarrow> ('m, 'f, 'b, 't) event \<Rightarrow> ('m, 'f, 'b, 't) state \<Rightarrow> bool" where
  "failed eng ev s \<longleftrightarrow> consoleErrors (settle eng ev s) \<noteq> consoleErrors s"

definition succeeded ::
  "('m, 'f, 'b, 't) pdfUtils \<Rightarrow> ('m, 'f, 'b, 't) event \<Rightarrow> ('m, 'f, 'b, 't) state \<Rightarrow> bool" where
  "succeeded eng ev s \<longleftrightarrow>
     dispatch eng ev s \<noteq> [] \<and> consoleErrors (settle eng ev s) = consoleErrors s"

text \<open>The engine calls and the notifications a run has added.\<close>

definition newCalls ::
  "('m, 'f, 'b, 't) pdfUtils \<Rightarrow> ('m, 'f, 'b, 't) event \<Rightarrow> ('m, 'f, 'b, 't) state \<Rightarrow> ('m, 'f, 'b, 't) call list" where
  "newCalls eng ev s = drop (length (engineCalls s)) (engineCalls (settle eng ev s))"

definition newAlerts ::
  "('m, 'f, 'b, 't) pdfUtils \<Rightarrow> ('m, 'f, 'b, 't) event \<Rightarrow> ('m, 'f, 'b, 't) state \<Rightarrow> string list" where
  "newAlerts eng ev s = drop (length (alerts s)) (alerts (settle eng ev s))"

text \<open>The Documents whose thumbnails the engine was asked for, in a list of calls.\<close>

fun thumbnailRequests :: "('m, 'f, 'b, 't) call list \<Rightarrow> bytes list" where
  "thumbnailRequests [] = []"
| "thumbnailRequests (Call_getPdfDetails d # cs) = d # thumbnailRequests cs"
| "thumbnailRequests (c # cs) = thumbnailRequests cs"

text \<open>
  Modelled from the spec: the page count of a Document. The engine's own page count is
  not among the sources; the spec's Thumbnail Projector "produces exactly one thumbnail
  per page, in page order", so the count is the number of thumbnails the engine yields
  (none when it rejects the bytes).
\<close>

definition pageCountOf :: "('m, 'f, 'b, 't) pdfUtils \<Rightarrow> bytes \<Rightarrow> nat option" where
  "pageCountOf eng d =
     (case getPdfDetails eng d of Inl err \<Rightarrow> None | Inr thumbnails \<Rightarrow> Some (length thumbnails))"

text \<open>
  The thumbnails are the projection of the current Document: the engine, asked for the
  thumbnails of the installed bytes, yields the ones in \<open>pages\<close>.
\<close>

definition projected :: "('m, 'f, 'b, 't) pdfUtils \<Rightarrow> ('m, 'f, 'b, 't) state \<Rightarrow> bool" where
  "projected eng s \<longleftrightarrow>
     (case pdfBytes s of None \<Rightarrow> False | Some cur \<Rightarrow> getPdfDetails eng cur = Inr (pages s))"

section \<open>Two handlers in flight\<close>

text \<open>
  Two tasks in flight at once: their segments run one at a time, each task in its own
  order, and which task goes next is the scheduler's choice (\<open>True\<close>: the first one).
\<close>

fun interleave :: "bool list \<Rightarrow> 'a list \<Rightarrow> 'a list \<Rightarrow> 'a list" where
  "interleave cs [] ys = ys"
| "interleave cs (x # xs) [] = x # xs"
| "interleave [] (x # xs) (y # ys) = (x # xs) @ (y # ys)"
| "interleave (c # cs) (x # xs) (y # ys) =
     (if c then x # interleave cs xs (y # ys) else y # interleave cs (x # xs) ys)"

text \<open>
  What a segment does to one state variable (read by \<open>var\<close>): it leaves it alone or
  gives it a value of \<open>R\<close>; it gives it a value of \<open>R\<close>.
\<close>

definition keeps_or_sets ::
  "(('m, 'f, 'b, 't) state \<Rightarrow> 'a) \<Rightarrow> 'a set \<Rightarrow> ('m, 'f, 'b, 't) stmt \<Rightarrow> bool" where
  "keeps_or_sets var R f \<longleftrightarrow> (\<forall>s. var (f s) = var s \<or> var (f s) \<in> R)"

definition sets_into ::
  "(('m, 'f, 'b, 't) state \<Rightarrow> 'a) \<Rightarrow> 'a set \<Rightarrow> ('m, 'f, 'b, 't) stmt \<Rightarrow> bool" where
  "sets_into var R f \<longleftrightarrow> (\<forall>s. var (f s) \<in> R)"

section \<open>The engine's reorder, from the specification\<close>

text \<open>
  Modelled from the spec: \<^verbatim>\<open>movePage\<close> of \<^verbatim>\<open>./utils/pdfUtils\<close>, which is not among the
  sources. The spec gives its result as the "new Document with page moved to destination,
  other pages shifted contiguously": on the page order, the page at the source index is
  taken out and put back at the destination index.
\<close>

definition move_page_order :: "'p list \<Rightarrow> nat \<Rightarrow> nat \<Rightarrow> 'p list" where
  "move_page_order ps i j =
     (let others = take i ps @ drop (Suc i) ps in take j others @ ps ! i # drop j others)"

text \<open>
  Modelled from the spec: an engine whose \<^verbatim>\<open>movePage\<close> does that on every Document, for
  indices within the page count; \<open>pageOrder\<close> reads the page order off the bytes.
\<close>

definition implements_movePage ::
  "(bytes \<Rightarrow> 'p list) \<Rightarrow> ('m, 'f, 'b, 't) pdfUtils \<Rightarrow> bool" where
  "implements_movePage pageOrder eng \<longleftrightarrow>
     (\<forall>d fromIx toIx.
        0 \<le> fromIx \<and> fromIx < int (length (pageOrder d)) \<and>
        0 \<le> toIx \<and> toIx < int (length (pageOrder d)) \<longrightarrow>
        (\<exists>d'. movePage eng d fromIx toIx = Inr d' \<and>
              pageOrder d' = move_page_order (pageOrder d) (nat fromIx) (nat toIx)))"

text \<open>
  Modelled from the spec: \<^verbatim>\<open>updateMetadata\<close> of \<^verbatim>\<open>./utils/pdfUtils\<close>, which is not among
  the sources. The spec gives its result as the "new Document with metadata fields
  replaced": the pages are the ones of the input, so the engine projects the result to
  the thumbnails of the input.
\<close>

definition updateMetadata_keeps_pages :: "('m, 'f, 'b, 't) pdfUtils \<Rightarrow> bool" where
  "updateMetadata_keeps_pages eng \<longleftrightarrow>
     (\<forall>d newMeta d'. updateMetadata eng d newMeta = Inr d' \<longrightarrow>
        getPdfDetails eng d' = getPdfDetails eng d)"

section \<open>A small engine for worked examples\<close>

text \<open>
  A Document of this engine is the list of its pages, one byte each; the empty byte
  string is not a PDF. The engine rejects an index outside the page count.
\<close>

definition demoThumbnail :: "8 word \<Rightarrow> string" where
  "demoThumbnail p = (if p = 1 then ''one'' else if p = 2 then ''two'' else ''other'')"

definition demoInRange :: "bytes \<Rightarrow> int \<Rightarrow> bool" where
  "demoInRange d i \<longleftrightarrow> 0 \<le> i \<and> i < int (length d)"

definition demoEngine :: "(string, unit, unit, string) pdfUtils" where
  "demoEngine = \<lparr>
     getPdfDetails = (\<lambda>d. if d = [] then Inl (Rejected ''not a PDF'') else Inr (map demoThumbnail d)),
     movePage = (\<lambda>d fromIx toIx.
        if demoInRange d fromIx \<and> demoInRange d toIx
        then Inr (move_page_order d (nat fromIx) (nat toIx))
        else Inl (Rejected ''index out of range'')),
     removePage = (\<lambda>d i.
        if demoInRange d i then Inr (take (nat i) d @ drop (Suc (nat i)) d)
        else Inl (Rejected ''index out of range'')),
     mergePdfs = (\<lambda>d e. if e = [] then Inl (Rejected ''not a PDF'') else Inr (d @ e)),
     getMetadata = (\<lambda>d. Inr ''untitled''),
     updateMetadata = (\<lambda>d m. if m = [] then Inl (Rejected ''empty title'') else Inr d),
     applyFiltersToPage = (\<lambda>d i f b.
        if demoInRange d i then Inr d else Inl (Rejected ''index out of range'')),
     addTextToPage = (\<lambda>d i t.
        if demoInRange d i then Inr d else Inl (Rejected ''index out of range'')) \<rparr>"

text \<open>A two-page Document and the state once it has been uploaded as \<^verbatim>\<open>a.pdf\<close>.\<close>

definition twoPages :: File where
  "twoPages = \<lparr> name = ''a.pdf'', arrayBuffer = Inr [1, 2] \<rparr>"

definition notAPdf :: File where
  "notAPdf = \<lparr> name = ''notes.txt'', arrayBuffer = Inr [] \<rparr>"

definition onePage :: File where
  "onePage = \<lparr> name = ''b.pdf'', arrayBuffer = Inr [2] \<rparr>"

definition loaded :: "(string, unit, unit, string) state" where
  "loaded = \<lparr> pdfBytes = Some [1, 2], fileName = ''a.pdf'', pages = [''one'', ''two''],
     loading = False, loadingText = ''Processing PDF...'',
     metadataModalOpen = False, editorModalOpen = False, currentMetadata = None,
     selectedPageIndex = None,
     engineCalls = [Call_getPdfDetails [1, 2]], consoleErrors = [], alerts = [],
     downloads = [] \<rparr>"

text \<open>
  States in which the thumbnails are not those of the current Document. The first is
  what uploading a file that is not a PDF over the two-page Document leaves. The others
  are left by two operations in flight on the two-page Document, the second one called
  in the state \<open>deleteInFlight\<close> that the opening segment of deleting page 0 commits;
  every engine call succeeds, and the thumbnails that arrive last are not those of the
  Document installed last.
\<close>

definition afterFailedUpload :: "(string, unit, unit, string) state" where
  "afterFailedUpload = settle demoEngine (OnUpload notAPdf) loaded"

definition deleteInFlight :: "(string, unit, unit, string) state" where
  "deleteInFlight = hd (observable (handleDeletePage demoEngine 0 loaded) loaded)"

definition afterTwoDeletes :: "(string, unit, unit, string) state" where
  "afterTwoDeletes =
     exec (interleave [True, False, False, True, True, True]
             (handleDeletePage demoEngine 0 loaded)
             (handleDeletePage demoEngine 1 deleteInFlight)) loaded"

definition extraThumbnails :: "(string, unit, unit, string) state" where
  "extraThumbnails =
     exec (interleave [True, False, False, False, True, True, True]
             (handleDeletePage demoEngine 0 loaded)
             (handleMerge demoEngine onePage deleteInFlight)) loaded"

definition missingThumbnails :: "(string, unit, unit, string) state" where
  "missingThumbnails =
     exec (interleave [True, False, True, False, False, False]
             (handleDeletePage demoEngine 0 loaded)
             (handleMerge demoEngine onePage deleteInFlight)) loaded"

definition demoPageOrder :: "bytes \<Rightarrow> 8 word list" where
  "demoPageOrder d = d"

text \<open>
  The label each mutating handler passes to \<^verbatim>\<open>setLoadingText\<close> before its first
  \<^verbatim>\<open>await\<close>; \<^verbatim>\<open>saveMetadata\<close> has no such call.
\<close>

fun statusLabel :: "('m, 'f, 'b, 't) event \<Rightarrow> string option" where
  "statusLabel (OnUpload file) = Some ''Loading file...''"
| "statusLabel (OnMerge file) = Some ''Merging PDFs...''"
| "statusLabel (OnMove fromIx toIx) = Some ''Reordering...''"
| "statusLabel (OnDelete index) = Some ''Deleting page...''"
| "statusLabel (OnApplyFilters filters border) = Some ''Applying edits...''"
| "statusLabel (OnAddText config) = Some ''Adding text...''"
| "statusLabel ev = None"

lemmas stmt_defs = setPdfBytes_def setFileName_def setPages_def setLoading_def
  setLoadingText_def setMetadataModalOpen_def setEditorModalOpen_def setCurrentMetadata_def
  setSelectedPageIndex_def invoke_def console_error_def alert_def download_def block_def

lemmas handler_defs = loadPdf_def handleFileUpload_def handleMerge_def handleMovePage_def
  handleDeletePage_def handleSave_def openMetadata_def saveMetadata_def openEditor_def
  handleApplyFilters_def handleAddText_def then_call_def

lemmas run_defs = settle_def exec_def failed_def succeeded_def newCalls_def newAlerts_def
  projected_def pageCountOf_def

lemmas demo_defs = demoEngine_def demoThumbnail_def demoInRange_def twoPages_def notAPdf_def
  onePage_def loaded_def initial_def move_page_order_def demoPageOrder_def
  afterFailedUpload_def deleteInFlight_def afterTwoDeletes_def extraThumbnails_def
  missingThumbnails_def

section \<open>Failure of a mutating operation\<close>

text \<open>
  C1. When a mutating operation (load, merge, reorder, delete, set-metadata,
  apply-filters, add-text) fails, the in-flight flag is cleared once it has settled and
  the thumbnails are the ones from before. If it failed before \<^verbatim>\<open>loadPdf\<close> asked the
  engine for thumbnails (the file could not be read, or the engine rejected the
  mutation), the current Document is the one from before the attempt. If it failed while
  the engine extracted the thumbnails of \<open>d\<close>, then \<open>d\<close> is already the current
  Document, and the notification \<^verbatim>\<open>Error loading PDF\<close> is raised. Load, merge,
  set-metadata, apply-filters and add-text raise a notification at every failure.
\<close>

theorem mutation_failure:
  "mutating ev \<Longrightarrow> failed eng ev s \<Longrightarrow>
     \<not> loading (settle eng ev s) \<and> pages (settle eng ev s) = pages s \<and>
     (thumbnailRequests (newCalls eng ev s) = [] \<longrightarrow> pdfBytes (settle eng ev s) = pdfBytes s) \<and>
     (\<forall>d \<in> set (thumbnailRequests (newCalls eng ev s)).
         pdfBytes (settle eng ev s) = Some d \<and> isl (getPdfDetails eng d) \<and>
         newAlerts eng ev s = [''Error loading PDF'']) \<and>
     (\<not> quiet_on_failure ev \<longrightarrow> newAlerts eng ev s \<noteq> [])"
  by (cases ev)
    (auto simp: run_defs handler_defs stmt_defs split: option.splits sum.splits if_splits)

text \<open>
  Merging a file that is not a PDF into the two-page Document: the engine rejects the
  merge, the Document stays, \<^verbatim>\<open>Failed to merge PDF\<close> is raised and the flag is cleared.
\<close>

theorem mutation_failure_witness:
  "mutating (OnMerge notAPdf :: (string, unit, unit, string) event) \<and>
   failed demoEngine (OnMerge notAPdf) loaded \<and>
   \<not> loading (settle demoEngine (OnMerge notAPdf) loaded) \<and>
   thumbnailRequests (newCalls demoEngine (OnMerge notAPdf) loaded) = [] \<and>
   pdfBytes (settle demoEngine (OnMerge notAPdf) loaded) = Some [1, 2] \<and>
   newAlerts demoEngine (OnMerge notAPdf) loaded = [''Failed to merge PDF'']"
  using mutation_failure [of "OnMerge notAPdf" demoEngine loaded]
  by (simp add: run_defs handler_defs stmt_defs demo_defs)

text \<open>
  The claim as the specification words it (after any failure the Document is the one
  from before, and a notification is raised) fails twice. Uploading a file that is not a
  PDF over the two-page Document fails in the thumbnail extraction, after the new bytes
  were installed: they are the current Document. Deleting page 7 of the two-page
  Document is rejected by the engine, and no notification is raised.
\<close>

theorem mutation_failure_counterexample:
  "mutating (OnUpload notAPdf :: (string, unit, unit, string) event) \<and>
   failed demoEngine (OnUpload notAPdf) loaded \<and>
   pdfBytes loaded = Some [1, 2] \<and>
   pdfBytes (settle demoEngine (OnUpload notAPdf) loaded) = Some [] \<and>
   pdfBytes (settle demoEngine (OnUpload notAPdf) loaded) \<noteq> pdfBytes loaded \<and>
   mutating (OnDelete 7 :: (string, unit, unit, string) event) \<and>
   failed demoEngine (OnDelete 7) loaded \<and>
   alerts (settle demoEngine (OnDelete 7) loaded) = alerts loaded"
  by (simp add: run_defs handler_defs stmt_defs demo_defs)

section \<open>Thumbnails after a mutation\<close>

text \<open>
  C2. After a successful mutation that ran with no other operation in flight has
  settled, the thumbnails are the engine's projection of the new current Document, and
  their number is its page count. For load, merge, reorder, delete, apply-filters and
  add-text this holds whatever the state before; set-metadata does not derive
  thumbnails again, so for it this holds when the thumbnails were the projection of the
  Document before the operation (the engine's \<^verbatim>\<open>updateMetadata\<close> leaving the pages as
  they were). The Document and its thumbnails are not installed together: the first
  state \<^verbatim>\<open>loadPdf\<close> commits holds the new bytes next to the previous thumbnails.
\<close>

theorem thumbnails_after_success:
  "(mutating ev \<and> succeeded eng ev s \<and>
    (reloads ev \<or> projected eng s \<and> updateMetadata_keeps_pages eng) \<longrightarrow>
      projected eng (settle eng ev s) \<and>
      (\<exists>d. pdfBytes (settle eng ev s) = Some d \<and>
           pageCountOf eng d = Some (length (pages (settle eng ev s))))) \<and>
   pdfBytes (hd (observable (loadPdf eng bs) s)) = Some bs \<and>
   pages (hd (observable (loadPdf eng bs) s)) = pages s"
proof (cases ev)
  case (OnSaveMetadata newMeta)
  have "projected eng (settle eng ev s) \<and>
      (\<exists>d. pdfBytes (settle eng ev s) = Some d \<and>
           pageCountOf eng d = Some (length (pages (settle eng ev s))))"
    if ok: "succeeded eng ev s" and before: "projected eng s"
      and keeps: "updateMetadata_keeps_pages eng"
  proof -
    from before obtain cur where cur: "pdfBytes s = Some cur"
      and thumbs: "getPdfDetails eng cur = Inr (pages s)"
      by (auto simp: projected_def split: option.splits)
    from ok cur OnSaveMetadata obtain new where new: "updateMetadata eng cur newMeta = Inr new"
      by (auto simp: run_defs handler_defs stmt_defs split: sum.splits)
    from keeps new thumbs have "getPdfDetails eng new = Inr (pages s)"
      by (simp add: updateMetadata_keeps_pages_def)
    with cur new OnSaveMetadata show ?thesis
      by (simp add: run_defs handler_defs stmt_defs)
  qed
  with OnSaveMetadata show ?thesis
    by (auto simp: loadPdf_def stmt_defs)
qed (auto simp: run_defs handler_defs stmt_defs split: option.splits sum.splits if_splits)

lemma demoEngine_keeps_pages: "updateMetadata_keeps_pages demoEngine"
  by (simp add: updateMetadata_keeps_pages_def demoEngine_def)

text \<open>
  Deleting the first of the two pages; and saving a title on the two-page Document,
  whose thumbnails are its projection.
\<close>

theorem thumbnails_after_success_witness:
  "mutating (OnDelete 0 :: (string, unit, unit, string) event) \<and>
   reloads (OnDelete 0 :: (string, unit, unit, string) event) \<and>
   succeeded demoEngine (OnDelete 0) loaded \<and>
   projected demoEngine (settle demoEngine (OnDelete 0) loaded) \<and>
   pdfBytes (settle demoEngine (OnDelete 0) loaded) = Some [2] \<and>
   pages (settle demoEngine (OnDelete 0) loaded) = [''two''] \<and>
   pageCountOf demoEngine [2] = Some 1 \<and>
   mutating (OnSaveMetadata ''Title'' :: (string, unit, unit, string) event) \<and>
   succeeded demoEngine (OnSaveMetadata ''Title'') loaded \<and>
   projected demoEngine loaded \<and> updateMetadata_keeps_pages demoEngine \<and>
   projected demoEngine (settle demoEngine (OnSaveMetadata ''Title'') loaded) \<and>
   pages (settle demoEngine (OnSaveMetadata ''Title'') loaded) = [''one'', ''two'']"
  using thumbnails_after_success [of "OnDelete 0" demoEngine loaded "[2]"]
    thumbnails_after_success [of "OnSaveMetadata ''Title''" demoEngine loaded "[2]"]
    demoEngine_keeps_pages
  by (simp add: run_defs handler_defs stmt_defs demo_defs)

text \<open>
  The claim as worded fails three times. Uploading the one-page \<^verbatim>\<open>b.pdf\<close> over the
  two-page Document succeeds, and the second state it commits (the file is read, the
  thumbnails are awaited) pairs the new one-page Document with the two thumbnails of the
  old one. With the deletions of page 0 and of page 1 both in flight, both succeed, and
  the state they leave (\<open>afterTwoDeletes\<close>) pairs the Document without page 0 with the
  thumbnail of the Document without page 1. Saving a title in that state succeeds and
  leaves that thumbnail in place.
\<close>

theorem thumbnails_counterexample:
  "projected demoEngine loaded \<and>
   succeeded demoEngine (OnUpload onePage) loaded \<and>
   pdfBytes (observable (dispatch demoEngine (OnUpload onePage) loaded) loaded ! 1) = Some [2] \<and>
   pages (observable (dispatch demoEngine (OnUpload onePage) loaded) loaded ! 1) = [''one'', ''two''] \<and>
   getPdfDetails demoEngine [2] = Inr [''two''] \<and>
   \<not> projected demoEngine (observable (dispatch demoEngine (OnUpload onePage) loaded) loaded ! 1) \<and>
   removePage demoEngine [1, 2] 0 = Inr [2] \<and>
   removePage demoEngine [1, 2] 1 = Inr [1] \<and>
   consoleErrors afterTwoDeletes = [] \<and>
   loading afterTwoDeletes = False \<and>
   pdfBytes afterTwoDeletes = Some [2] \<and>
   pages afterTwoDeletes = [''one''] \<and>
   \<not> projected demoEngine afterTwoDeletes \<and>
   succeeded demoEngine (OnSaveMetadata ''Title'') afterTwoDeletes \<and>
   pdfBytes (settle demoEngine (OnSaveMetadata ''Title'') afterTwoDeletes) = Some [2] \<and>
   pages (settle demoEngine (OnSaveMetadata ''Title'') afterTwoDeletes) = [''one''] \<and>
   \<not> projected demoEngine (settle demoEngine (OnSaveMetadata ''Title'') afterTwoDeletes)"
  by (simp add: run_defs handler_defs stmt_defs demo_defs)

section \<open>Two deletions in flight\<close>

lemma set_interleave: "set (interleave cs xs ys) = set xs \<union> set ys"
  by (induction cs xs ys rule: interleave.induct) auto

lemma fold_keeps_or_sets:
  "\<forall>f \<in> set fs. keeps_or_sets var R f \<Longrightarrow>
     var (fold (\<lambda>f. f) fs s) = var s \<or> var (fold (\<lambda>f. f) fs s) \<in> R"
proof (induction fs arbitrary: s)
  case Nil
  then show ?case by simp
next
  case (Cons f fs)
  from Cons.prems have "keeps_or_sets var R f" by simp
  then have step: "var (f s) = var s \<or> var (f s) \<in> R"
    by (simp add: keeps_or_sets_def)
  from Cons.prems have "\<forall>g \<in> set fs. keeps_or_sets var R g" by simp
  from Cons.IH [OF this, of "f s"] step show ?case by auto
qed

lemma fold_sets_into:
  "\<forall>f \<in> set fs. keeps_or_sets var R f \<Longrightarrow> \<exists>f \<in> set fs. sets_into var R f \<Longrightarrow>
     var (fold (\<lambda>f. f) fs s) \<in> R"
proof (induction fs arbitrary: s)
  case Nil
  then show ?case by simp
next
  case (Cons f fs)
  from Cons.prems(1) have rest: "\<forall>g \<in> set fs. keeps_or_sets var R g" by simp
  show ?case
  proof (cases "\<exists>g \<in> set fs. sets_into var R g")
    case True
    from Cons.IH [OF rest True, of "f s"] show ?thesis by simp
  next
    case False
    with Cons.prems(2) have "sets_into var R f" by auto
    then have "var (f s) \<in> R" by (simp add: sets_into_def)
    with fold_keeps_or_sets [OF rest, of "f s"] show ?thesis by auto
  qed
qed

lemma in_flight_sets_into:
  assumes "\<forall>f \<in> set t1. keeps_or_sets var R f" and "\<forall>f \<in> set t2. keeps_or_sets var R f"
    and "\<exists>f \<in> set t1. sets_into var R f"
  shows "var (exec (interleave sched t1 t2) s) \<in> R"
proof -
  from assms(1,2) have "\<forall>f \<in> set (interleave sched t1 t2). keeps_or_sets var R f"
    by (auto simp: set_interleave)
  moreover from assms(3) have "\<exists>f \<in> set (interleave sched t1 t2). sets_into var R f"
    by (auto simp: set_interleave)
  ultimately show ?thesis
    unfolding exec_def by (rule fold_sets_into)
qed

lemma delete_installs:
  assumes "pdfBytes snap = Some d" and "removePage eng d i = Inr di" and "Some di \<in> R"
  shows "\<forall>f \<in> set (handleDeletePage eng i snap). keeps_or_sets pdfBytes R f"
    and "\<exists>f \<in> set (handleDeletePage eng i snap). sets_into pdfBytes R f"
  using assms
  by (auto simp: handleDeletePage_def loadPdf_def stmt_defs keeps_or_sets_def sets_into_def
      split: sum.splits)

lemma delete_shows:
  assumes "pdfBytes snap = Some d" and "removePage eng d i = Inr di"
    and "getPdfDetails eng di = Inr ti" and "ti \<in> T"
  shows "\<forall>f \<in> set (handleDeletePage eng i snap). keeps_or_sets pages T f"
    and "\<exists>f \<in> set (handleDeletePage eng i snap). sets_into pages T f"
  using assms
  by (auto simp: handleDeletePage_def loadPdf_def stmt_defs keeps_or_sets_def sets_into_def
      split: sum.splits)

text \<open>
  C3. Two delete operations are fired on the same current Document \<open>d\<close>, the second
  before the first has completed: both handlers read \<open>d\<close> from their closures
  (\<open>snap1\<close>, \<open>snap2\<close>). The engine carries out both removals, giving \<open>di\<close> and \<open>dj\<close>,
  and projects both results, to \<open>ti\<close> and \<open>tj\<close>. Whatever the order in which their
  segments run, the final Document is \<open>di\<close> or \<open>dj\<close> (\<open>d\<close> with exactly one of the two
  deletions applied, the other one lost), and the final thumbnails are \<open>ti\<close> or \<open>tj\<close>:
  those of one of the two deletions, which need not be the one the Document has.
\<close>

theorem concurrent_deletes_one_applied:
  assumes "pdfBytes snap1 = Some d" and "pdfBytes snap2 = Some d"
    and "removePage eng d i = Inr di" and "removePage eng d j = Inr dj"
    and "getPdfDetails eng di = Inr ti" and "getPdfDetails eng dj = Inr tj"
  shows "pdfBytes (exec (interleave sched (handleDeletePage eng i snap1)
            (handleDeletePage eng j snap2)) s) \<in> {Some di, Some dj} \<and>
         pages (exec (interleave sched (handleDeletePage eng i snap1)
            (handleDeletePage eng j snap2)) s) \<in> {ti, tj}"
proof
  let ?R = "{Some di, Some dj}" and ?T = "{ti, tj}"
  show "pdfBytes (exec (interleave sched (handleDeletePage eng i snap1)
            (handleDeletePage eng j snap2)) s) \<in> ?R"
    using delete_installs(1) [OF assms(1) assms(3), of ?R]
      delete_installs(1) [OF assms(2) assms(4), of ?R]
      delete_installs(2) [OF assms(1) assms(3), of ?R]
    by (intro in_flight_sets_into) simp_all
  show "pages (exec (interleave sched (handleDeletePage eng i snap1)
            (handleDeletePage eng j snap2)) s) \<in> ?T"
    using delete_shows(1) [OF assms(1) assms(3) assms(5), of ?T]
      delete_shows(1) [OF assms(2) assms(4) assms(6), of ?T]
      delete_shows(2) [OF assms(1) assms(3) assms(5), of ?T]
    by (intro in_flight_sets_into) simp_all
qed

text \<open>
  On the two-page Document, deleting page 0 and deleting page 1 are both in flight; the
  second handler was called in the state the first one's opening segment left. The
  engine answers the second removal first, and the first thumbnails last.
\<close>

theorem concurrent_deletes_one_applied_witness:
  "pdfBytes loaded = Some [1, 2] \<and>
   pdfBytes deleteInFlight = Some [1, 2] \<and>
   removePage demoEngine [1, 2] 0 = Inr [2] \<and>
   removePage demoEngine [1, 2] 1 = Inr [1] \<and>
   getPdfDetails demoEngine [2] = Inr [''two''] \<and>
   getPdfDetails demoEngine [1] = Inr [''one''] \<and>
   pdfBytes (exec (interleave [True, False, False, True, False, False, True]
      (handleDeletePage demoEngine 0 loaded)
      (handleDeletePage demoEngine 1 deleteInFlight)) loaded) = Some [2] \<and>
   pages (exec (interleave [True, False, False, True, False, False, True]
      (handleDeletePage demoEngine 0 loaded)
      (handleDeletePage demoEngine 1 deleteInFlight)) loaded) = [''two'']"
  using concurrent_deletes_one_applied [of loaded "[1, 2]" deleteInFlight demoEngine
      0 "[2]" 1 "[1]" "[''two'']" "[''one'']"
      "[True, False, False, True, False, False, True]" loaded]
  by (simp add: run_defs handler_defs stmt_defs demo_defs)

text \<open>
  The claim as worded fails: one deletion is applied to the Document, and the other one
  is the one on display. The deletions of page 0 and of page 1 of the two-page Document
  are both in flight, and the engine carries out both. The removal of page 1 is
  installed last, so the final Document is the first page alone; the thumbnails of the
  removal of page 0 arrive last, so the grid shows the second page alone. No error is
  logged and the flag is cleared.
\<close>

theorem concurrent_deletes_counterexample:
  "pdfBytes loaded = Some [1, 2] \<and>
   pdfBytes deleteInFlight = Some [1, 2] \<and>
   removePage demoEngine [1, 2] 0 = Inr [2] \<and>
   removePage demoEngine [1, 2] 1 = Inr [1] \<and>
   getPdfDetails demoEngine [2] = Inr [''two''] \<and>
   getPdfDetails demoEngine [1] = Inr [''one''] \<and>
   pdfBytes (exec (interleave [True, False, True, False, False, False]
      (handleDeletePage demoEngine 0 loaded)
      (handleDeletePage demoEngine 1 deleteInFlight)) loaded) = Some [1] \<and>
   pages (exec (interleave [True, False, True, False, False, False]
      (handleDeletePage demoEngine 0 loaded)
      (handleDeletePage demoEngine 1 deleteInFlight)) loaded) = [''two''] \<and>
   consoleErrors (exec (interleave [True, False, True, False, False, False]
      (handleDeletePage demoEngine 0 loaded)
      (handleDeletePage demoEngine 1 deleteInFlight)) loaded) = [] \<and>
   loading (exec (interleave [True, False, True, False, False, False]
      (handleDeletePage demoEngine 0 loaded)
      (handleDeletePage demoEngine 1 deleteInFlight)) loaded) = False"
  by (simp add: run_defs handler_defs stmt_defs demo_defs)

section \<open>Reordering\<close>

text \<open>
  C4. With a Document loaded, reorder with a destination index outside
  \<open>[0, pages.length)\<close>, the number of thumbnails, is a no-op: the handler returns at
  its guard, so no segment runs, no state is committed (the flag is never set, the
  engine is not invoked, nothing is logged or raised), and the state is the one from
  before. The number of thumbnails is the Document's page count whenever the thumbnails
  are the projection of the current Document.
\<close>

theorem reorder_out_of_range_noop:
  "pdfBytes s = Some d \<Longrightarrow> toIx < 0 \<or> int (length (pages s)) \<le> toIx \<Longrightarrow>
     dispatch eng (OnMove fromIx toIx) s = [] \<and>
     observable (dispatch eng (OnMove fromIx toIx) s) s = [] \<and>
     settle eng (OnMove fromIx toIx) s = s \<and>
     (projected eng s \<longrightarrow> pageCountOf eng d = Some (length (pages s)))"
  by (auto simp: run_defs handler_defs)

theorem reorder_out_of_range_noop_witness:
  "pdfBytes loaded = Some [1, 2] \<and> int (length (pages loaded)) \<le> 2 \<and>
   dispatch demoEngine (OnMove 0 2) loaded = [] \<and>
   settle demoEngine (OnMove 0 2) loaded = loaded \<and>
   projected demoEngine loaded \<and>
   pageCountOf demoEngine [1, 2] = Some 2"
  using reorder_out_of_range_noop [of loaded "[1, 2]" 2 demoEngine 0]
  by (simp add: run_defs demo_defs)

text \<open>
  The claim as worded, with the bound taken from the Document, fails where there are
  more thumbnails than pages. In \<open>extraThumbnails\<close> (a deletion and a merge were in
  flight together and both succeeded) the Document has one page and the grid three
  thumbnails: destination 2 is outside \<open>[0, 1)\<close>, and the handler sets the flag and
  calls the engine. In \<open>afterFailedUpload\<close> the current Document is a file that is
  not a PDF, with no page at all, next to the two thumbnails from before: destination 1
  passes the guard as well.
\<close>

theorem reorder_out_of_range_counterexample:
  "consoleErrors extraThumbnails = [] \<and>
   pdfBytes extraThumbnails = Some [2] \<and>
   pageCountOf demoEngine [2] = Some 1 \<and>
   pages extraThumbnails = [''one'', ''two'', ''two''] \<and>
   loading extraThumbnails = False \<and>
   loading (hd (observable (dispatch demoEngine (OnMove 0 2) extraThumbnails) extraThumbnails)) \<and>
   engineCalls (hd (observable (dispatch demoEngine (OnMove 0 2) extraThumbnails) extraThumbnails)) =
     engineCalls extraThumbnails @ [Call_movePage [2] 0 2] \<and>
   pdfBytes afterFailedUpload = Some [] \<and>
   pageCountOf demoEngine [] = None \<and>
   pages afterFailedUpload = [''one'', ''two''] \<and>
   loading (hd (observable (dispatch demoEngine (OnMove 0 1) afterFailedUpload) afterFailedUpload)) \<and>
   engineCalls (hd (observable (dispatch demoEngine (OnMove 0 1) afterFailedUpload) afterFailedUpload)) =
     engineCalls afterFailedUpload @ [Call_movePage [] 0 1]"
  by (simp add: run_defs handler_defs stmt_defs demo_defs)

lemma move_page_order_same: "i < length ps \<Longrightarrow> move_page_order ps i i = ps"
  by (simp add: move_page_order_def Let_def min_def id_take_nth_drop [symmetric])

text \<open>
  C6. With a Document \<open>d\<close> loaded and an index \<open>i\<close> within \<open>[0, pageCount)\<close>, reorder
  with \<open>from = i\<close> and \<open>to = i\<close> yields a Document whose page order is that of \<open>d\<close>.
  The handler has no case of its own for equal indices: it passes them to the engine,
  and the order is kept because the engine's \<^verbatim>\<open>movePage\<close>, as the specification
  describes it, puts the page back where it was.
\<close>

theorem reorder_same_index_keeps_order:
  assumes "implements_movePage pageOrder eng" and "pdfBytes s = Some d"
    and "0 \<le> i" and "i < int (length (pageOrder d))"
  shows "\<exists>d'. pdfBytes (settle eng (OnMove i i) s) = Some d' \<and> pageOrder d' = pageOrder d"
proof (cases "i < int (length (pages s))")
  case False
  with assms(2) show ?thesis by (simp add: run_defs handler_defs)
next
  case True
  from assms(1,3,4) obtain d' where
    m: "movePage eng d i i = Inr d'" and
    o: "pageOrder d' = move_page_order (pageOrder d) (nat i) (nat i)"
    unfolding implements_movePage_def by blast
  from assms(3,4) have "nat i < length (pageOrder d)" by simp
  with o have "pageOrder d' = pageOrder d" by (simp add: move_page_order_same)
  moreover from True assms(2,3) m have "pdfBytes (settle eng (OnMove i i) s) = Some d'"
    by (simp add: run_defs handler_defs stmt_defs split: sum.splits)
  ultimately show ?thesis by simp
qed

lemma demoEngine_implements_movePage: "implements_movePage demoPageOrder demoEngine"
  by (simp add: implements_movePage_def demoEngine_def demoInRange_def demoPageOrder_def)

theorem reorder_same_index_keeps_order_witness:
  "implements_movePage demoPageOrder demoEngine \<and> pdfBytes loaded = Some [1, 2] \<and>
   (1::int) < int (length (demoPageOrder [1, 2])) \<and>
   engineCalls (settle demoEngine (OnMove 1 1) loaded) =
     [Call_getPdfDetails [1, 2], Call_movePage [1, 2] 1 1, Call_getPdfDetails [1, 2]] \<and>
   pdfBytes (settle demoEngine (OnMove 1 1) loaded) = Some [1, 2]"
  using reorder_same_index_keeps_order [OF demoEngine_implements_movePage, of loaded "[1, 2]" 1]
    demoEngine_implements_movePage
  by (simp add: run_defs handler_defs stmt_defs demo_defs)

text \<open>
  C9. Reorder checks the destination index only, against the number of thumbnails: with
  a Document \<open>d\<close> loaded and a destination within \<open>[0, pages.length)\<close>, the
  handler's first segment calls the engine's \<^verbatim>\<open>movePage\<close> with \<open>d\<close>, the source index
  and the destination, whatever the source index is. The number of thumbnails is the
  Document's page count whenever the thumbnails are the projection of the current
  Document.
\<close>

theorem reorder_checks_destination_only:
  "pdfBytes s = Some d \<Longrightarrow> 0 \<le> toIx \<Longrightarrow> toIx < int (length (pages s)) \<Longrightarrow>
     dispatch eng (OnMove fromIx toIx) s \<noteq> [] \<and>
     engineCalls (hd (observable (dispatch eng (OnMove fromIx toIx) s) s)) =
       engineCalls s @ [Call_movePage d fromIx toIx] \<and>
     (projected eng s \<longrightarrow> pageCountOf eng d = Some (length (pages s)))"
  by (auto simp: run_defs handler_defs stmt_defs split: sum.splits)

theorem reorder_checks_destination_only_witness:
  "pdfBytes loaded = Some [1, 2] \<and> (0::int) < int (length (pages loaded)) \<and>
   engineCalls (hd (observable (dispatch demoEngine (OnMove 99 0) loaded) loaded)) =
     [Call_getPdfDetails [1, 2], Call_movePage [1, 2] 99 0] \<and>
   engineCalls (hd (observable (dispatch demoEngine (OnMove (- 3) 0) loaded) loaded)) =
     [Call_getPdfDetails [1, 2], Call_movePage [1, 2] (- 3) 0] \<and>
   projected demoEngine loaded \<and>
   pageCountOf demoEngine [1, 2] = Some 2"
  using reorder_checks_destination_only [of loaded "[1, 2]" 0 demoEngine 99]
    reorder_checks_destination_only [of loaded "[1, 2]" 0 demoEngine "- 3"]
  by (simp add: run_defs demo_defs)

text \<open>
  The claim as worded, with the bound taken from the Document, fails where there are
  fewer thumbnails than pages. In \<open>missingThumbnails\<close> (a deletion and a merge were in
  flight together and both succeeded) the Document has three pages and the grid one
  thumbnail: destination 2 is within \<open>[0, 3)\<close>, and the handler returns at its guard
  without calling the engine.
\<close>

theorem reorder_checks_destination_counterexample:
  "consoleErrors missingThumbnails = [] \<and>
   pdfBytes missingThumbnails = Some [1, 2, 2] \<and>
   pageCountOf demoEngine [1, 2, 2] = Some 3 \<and>
   pages missingThumbnails = [''two''] \<and>
   dispatch demoEngine (OnMove 0 2) missingThumbnails = [] \<and>
   engineCalls (settle demoEngine (OnMove 0 2) missingThumbnails) = engineCalls missingThumbnails"
  by (simp add: run_defs handler_defs stmt_defs demo_defs)

section \<open>Operations that need a Document\<close>

text \<open>
  C7. With no Document loaded, merge, reorder, delete, get-metadata, set-metadata,
  apply-filters, add-text and export are silent no-ops: the handler returns at its first
  guard, so no segment runs, no state is committed (no engine call, no error, the flag
  not set), and the state is the one from before.
\<close>

theorem no_document_noop:
  "needs_document ev \<Longrightarrow> pdfBytes s = None \<Longrightarrow>
     dispatch eng ev s = [] \<and> observable (dispatch eng ev s) s = [] \<and> settle eng ev s = s"
  by (cases ev) (auto simp: run_defs handler_defs)

theorem no_document_noop_witness:
  "needs_document (OnDelete 0 :: (string, unit, unit, string) event) \<and>
   pdfBytes (initial :: (string, unit, unit, string) state) = None \<and>
   dispatch demoEngine (OnDelete 0) initial = [] \<and>
   settle demoEngine (OnDelete 0) initial = initial \<and>
   settle demoEngine OnSave initial = initial"
  using no_document_noop [of "OnDelete 0" initial demoEngine]
    no_document_noop [of OnSave initial demoEngine]
  by (simp add: initial_def)

text \<open>
  C8. With a Document loaded, export hands the current Document's bytes to the host as
  a download named \<^verbatim>\<open>edited_\<close> followed by the file name, in one segment, and changes
  nothing else: the Document, the thumbnails, the file name and the in-flight flag are
  as before, and the engine is not called.
\<close>

theorem export_frame:
  "pdfBytes s = Some d \<Longrightarrow>
     observable (dispatch eng OnSave s) s = [settle eng OnSave s] \<and>
     settle eng OnSave s = s\<lparr>downloads := downloads s @ [(''edited_'' @ fileName s, d)]\<rparr> \<and>
     pdfBytes (settle eng OnSave s) = pdfBytes s \<and>
     pages (settle eng OnSave s) = pages s \<and>
     fileName (settle eng OnSave s) = fileName s \<and>
     loading (settle eng OnSave s) = loading s \<and>
     engineCalls (settle eng OnSave s) = engineCalls s"
  by (auto simp: run_defs handler_defs stmt_defs)

theorem export_frame_witness:
  "pdfBytes loaded = Some [1, 2] \<and>
   downloads (settle demoEngine OnSave loaded) = [(''edited_a.pdf'', [1, 2])] \<and>
   pdfBytes (settle demoEngine OnSave loaded) = Some [1, 2] \<and>
   loading (settle demoEngine OnSave loaded) = False"
  using export_frame [of loaded "[1, 2]" demoEngine]
  by (simp add: demo_defs)

section \<open>The in-flight flag and its status message\<close>

lemma flag_set_with_first_segment:
  "mutating ev \<Longrightarrow> dispatch eng ev s = seg # rest \<Longrightarrow> loading (seg s)"
  by (cases ev)
    (auto simp: handler_defs stmt_defs split: option.splits sum.splits if_splits)

lemma flag_cleared_when_settled:
  "mutating ev \<Longrightarrow> dispatch eng ev s \<noteq> [] \<Longrightarrow> \<not> loading (settle eng ev s)"
  by (cases ev)
    (auto simp: run_defs handler_defs stmt_defs split: option.splits sum.splits if_splits)

lemma status_label_set:
  "mutating ev \<Longrightarrow> dispatch eng ev s = seg # rest \<Longrightarrow>
     loadingText (seg s) = (case statusLabel ev of Some label \<Rightarrow> label | None \<Rightarrow> loadingText s)"
  by (cases ev)
    (auto simp: handler_defs stmt_defs split: option.splits sum.splits if_splits)

text \<open>
  C5. Every mutating operation sets the in-flight flag together with a status message
  before it invokes the engine. \<^verbatim>\<open>saveMetadata\<close> sets the flag and not the message:
  saving a title on the two-page Document raises the flag and calls the engine's
  \<^verbatim>\<open>updateMetadata\<close> under the message the upload left, \<^verbatim>\<open>Processing PDF...\<close>.
\<close>

theorem saveMetadata_keeps_stale_status:
  "pdfBytes loaded = Some [1, 2] \<and>
   loadingText loaded = ''Processing PDF...'' \<and>
   loading (hd (observable (dispatch demoEngine (OnSaveMetadata ''Title'') loaded) loaded)) \<and>
   engineCalls (hd (observable (dispatch demoEngine (OnSaveMetadata ''Title'') loaded) loaded)) =
     engineCalls loaded @ [Call_updateMetadata [1, 2] ''Title''] \<and>
   loadingText (hd (observable (dispatch demoEngine (OnSaveMetadata ''Title'') loaded) loaded)) =
     ''Processing PDF...''"
  by (simp add: run_defs handler_defs stmt_defs demo_defs)

section \<open>The selected page\<close>

text \<open>
  C10. No mutating operation changes the selected-page index: once the editor has been
  opened on index \<open>i\<close>, the selection is \<open>i\<close> after any mutation, and a following
  apply-filters or add-text passes the new Document and \<open>i\<close> to the engine, whatever
  page of the new Document that index denotes, if any.
\<close>

theorem selection_survives_mutation:
  "mutating ev \<Longrightarrow> s = settle eng (OnEdit i) s0 \<Longrightarrow> s' = settle eng ev s \<Longrightarrow>
   pdfBytes s' = Some d' \<Longrightarrow>
     selectedPageIndex s = Some i \<and> selectedPageIndex s' = Some i \<and>
     engineCalls (hd (observable (dispatch eng (OnApplyFilters filters border) s') s')) =
       engineCalls s' @ [Call_applyFiltersToPage d' i filters border] \<and>
     engineCalls (hd (observable (dispatch eng (OnAddText config) s') s')) =
       engineCalls s' @ [Call_addTextToPage d' i config]"
  by (cases ev)
    (auto simp: run_defs handler_defs stmt_defs split: option.splits sum.splits if_splits)

text \<open>
  The editor is opened on the second page (index 1) of the two-page Document, and that
  page is deleted: the selection is still 1, and apply-filters asks the engine for page 1
  of a Document that has page 0 only.
\<close>

theorem selection_survives_mutation_witness:
  "mutating (OnDelete 1 :: (string, unit, unit, string) event) \<and>
   pdfBytes (settle demoEngine (OnDelete 1) (settle demoEngine (OnEdit 1) loaded)) = Some [1] \<and>
   selectedPageIndex (settle demoEngine (OnDelete 1) (settle demoEngine (OnEdit 1) loaded)) = Some 1 \<and>
   engineCalls (hd (observable
       (dispatch demoEngine (OnApplyFilters () ())
          (settle demoEngine (OnDelete 1) (settle demoEngine (OnEdit 1) loaded)))
       (settle demoEngine (OnDelete 1) (settle demoEngine (OnEdit 1) loaded)))) =
     engineCalls (settle demoEngine (OnDelete 1) (settle demoEngine (OnEdit 1) loaded)) @
       [Call_applyFiltersToPage [1] 1 () ()]"
  using selection_survives_mutation [of "OnDelete 1" "settle demoEngine (OnEdit 1) loaded"
      demoEngine 1 loaded "settle demoEngine (OnDelete 1) (settle demoEngine (OnEdit 1) loaded)"
      "[1]" "()" "()" "''note''"]
  by (simp add: run_defs handler_defs stmt_defs demo_defs)

end
